theory Spec2Isabelle
  imports Complex_Main
begin

section \<open>Package \<open>types\<close>: the record shapes and constants the validators use\<close>

text \<open>
  The file \<open>validate.go\<close> imports the package \<open>types\<close> of the same repository, whose
  source is not part of the verified sources. The validators read the following from it:
  twenty-five enumeration constants, the constant \<open>IntervalMinute\<close>, the two compiled
  patterns \<open>ReHex8\<close> and \<open>ReISO3166\<close>, and the struct types \<open>ProvenanceTag\<close>,
  \<open>Series\<close>, \<open>Point\<close> and \<open>CoordinationSignals\<close>.

  Go strings are byte sequences, so a string is a \<open>char list\<close> holding the bytes of its
  UTF-8 encoding. The enumeration types are taken to be string types, as \<open>DedupHash\<close>
  (converted with \<open>string(t.DedupHash)\<close>) and \<open>Interval\<close> visibly are.
\<close>

text \<open>
  The enumeration constants and the ISO-3166 pattern are parameters of the model: every
  theorem below holds for every value of them.
\<close>

record types_pkg =
  AcctAge_0_7d :: string
  AcctAge_8_30d :: string
  AcctAge_1_6m :: string
  AcctAge_6_24m :: string
  AcctAge_24mPlus :: string
  AcctTypePerson :: string
  AcctTypeOrg :: string
  AcctTypeMedia :: string
  AcctTypePublicOfficial :: string
  AcctTypeUnverified :: string
  AcctTypeDeclaredAutomation :: string
  AutomationManual :: string
  AutomationScheduled :: string
  AutomationAPICLIENT :: string
  AutomationDeclaredBot :: string
  PostKindOriginal :: string
  PostKindReshare :: string
  PostKindQuote :: string
  PostKindReply :: string
  ClientWeb :: string
  ClientMobile :: string
  ClientThirdParty :: string
  MediaProvC2PA :: string
  MediaProvHash :: string
  MediaProvNone :: string
  ReISO3166 :: "string \<Rightarrow> bool"

text \<open>
  Modelled from the spec: the constant \<open>types.IntervalMinute\<close>, which the spec gives as
  the single permitted interval value "minute" (the validator's own message reads
  \<open>interval must be "minute"\<close>).
\<close>

definition IntervalMinute :: string where
  "IntervalMinute = ''minute''"

text \<open>
  Modelled from the spec: the compiled pattern \<open>types.ReHex8\<close>, which the spec gives as
  \<open>^[0-9a-f]{8}$\<close>. Go's \<open>$\<close> matches at the end of the text only, so the pattern matches
  exactly the strings of eight bytes that are each a decimal digit or a letter \<open>a\<close> to \<open>f\<close>.
\<close>

definition hex_lower :: "char \<Rightarrow> bool" where
  "hex_lower c = (c \<in> set ''0123456789abcdef'')"

definition ReHex8 :: "string \<Rightarrow> bool" where
  "ReHex8 s = (length s = 8 \<and> list_all hex_lower s)"

text \<open>
  A \<open>float64\<close> is a finite number, an infinity or a NaN. The validators only compare
  floats with the constants 0 and 1, and IEEE comparison is exact, so a finite float is
  represented by its value (the two zeros compare equal and are one value here). Every
  comparison with a NaN is false.
\<close>

datatype float64 = Finite rat | PosInf | NegInf | NaN

fun f64_less :: "float64 \<Rightarrow> float64 \<Rightarrow> bool" where
  "f64_less (Finite a) (Finite b) = (a < b)"
| "f64_less (Finite a) PosInf = True"
| "f64_less NegInf (Finite b) = True"
| "f64_less NegInf PosInf = True"
| "f64_less _ _ = False"

definition f64_greater :: "float64 \<Rightarrow> float64 \<Rightarrow> bool" where
  "f64_greater a b = f64_less b a"

text \<open>
  A \<open>time.Time\<close> of Go's standard library, as the seconds since January 1 of year 1 (UTC)
  and the nanoseconds within the second; \<open>IsZero\<close> reports that instant.
\<close>

record Time =
  sec :: int
  nsec :: int

definition IsZero :: "Time \<Rightarrow> bool" where
  "IsZero t = (sec t = 0 \<and> nsec t = 0)"

text \<open>
  Modelled from the spec: the struct types \<open>ProvenanceTag\<close>, \<open>CoordinationSignals\<close>,
  \<open>Point\<close> and \<open>Series\<close> of the package \<open>types\<close>. The fields are those that the
  validators read, under the names the validators use; the volume and the
  duplication-cluster count are integers, the ratios and indices are floats, and the
  generation timestamp is a \<open>time.Time\<close>.
\<close>

record ProvenanceTag =
  AcctAgeBucket :: string
  AcctType :: string
  AutomationFlag :: string
  PostKind :: string
  ClientFamily :: string
  MediaProvenance :: string
  DedupHash :: string
  OriginHint :: string

record CoordinationSignals =
  BurstScore :: float64
  SynchronyIndex :: float64
  DuplicationClusters :: int

record Point =
  Volume :: int
  ReshareRatio :: float64
  RecycledContentRate :: float64
  CoordinationSignals :: CoordinationSignals

record Series =
  Topic :: string
  GeneratedAt :: Time
  Interval :: string
  Points :: "Point list"

section \<open>Errors and the aggregator \<open>MultiError\<close>\<close>

text \<open>
  A non-nil value of the interface \<open>error\<close> is either a plain message (what
  \<open>errors.New\<close> and \<open>fmt.Errorf\<close> without \<open>%w\<close> build) or a \<open>*MultiError\<close>. The nil
  interface value is \<open>None\<close> of \<open>error option\<close>. The struct \<open>MultiError\<close> has the single
  field \<open>errs\<close>. Error values are finite trees here: an aggregator that has been
  appended to itself, whose \<open>Error\<close> would not return, is not a value of the model.
\<close>

datatype error = errorString string | MultiErrorPtr MultiError
and MultiError = MultiError (errs: "error list")

definition errors_New :: "string \<Rightarrow> error" where
  "errors_New text = errorString text"

text \<open>The verb \<open>%d\<close> of \<open>fmt\<close> on a non-negative integer: its decimal digits.\<close>

definition digit_char :: "nat \<Rightarrow> char" where
  "digit_char d = char_of (48 + d)"

function fmt_d :: "nat \<Rightarrow> string" where
  "fmt_d n = (if n < 10 then [digit_char n] else fmt_d (n div 10) @ [digit_char (n mod 10)])"
  by pat_completeness auto
termination
  by (relation "measure (\<lambda>n. n)") auto

declare fmt_d.simps [simp del]

text \<open>
  \<open>Append\<close> (lines 26 to 30). The receiver is updated in place; the model returns the
  updated aggregator.
\<close>

definition Append :: "MultiError \<Rightarrow> error option \<Rightarrow> MultiError" where
  "Append m err = (case err of None \<Rightarrow> m | Some e \<Rightarrow> MultiError (errs m @ [e]))"

text \<open>
  \<open>Error\<close> (lines 31 to 43), with the method of the interface that it calls on each
  recorded error. \<open>Error_range i es b\<close> is the loop over the recorded errors from index
  \<open>i\<close> on, with \<open>b\<close> the content of the string builder.
\<close>

fun Error :: "error \<Rightarrow> string"
and MultiError_Error :: "MultiError \<Rightarrow> string"
and Error_range :: "nat \<Rightarrow> error list \<Rightarrow> string \<Rightarrow> string" where
  "Error (errorString s) = s"
| "Error (MultiErrorPtr m) = MultiError_Error m"
| "MultiError_Error (MultiError es) = (if length es = 0 then [] else Error_range 0 es [])"
| "Error_range i [] b = b"
| "Error_range i (e # es) b =
     Error_range (i + 1) es ((if i > 0 then b @ ''; '' else b) @ Error e)"

text \<open>\<open>NilOrError\<close> (lines 54 to 59).\<close>

definition NilOrError :: "MultiError \<Rightarrow> error option" where
  "NilOrError m = (if length (errs m) = 0 then None else Some (MultiErrorPtr m))"

section \<open>The validators\<close>

text \<open>
  A call either returns or panics. The pointer argument of a validator is \<open>None\<close> for
  nil; reading a field through a nil pointer is a run-time panic.
\<close>

datatype panic = NilDereference | PanicValue error

text \<open>\<open>validateISO3166MaybeEmpty\<close> (lines 152 to 160).\<close>

definition validateISO3166MaybeEmpty :: "types_pkg \<Rightarrow> string \<Rightarrow> error option" where
  "validateISO3166MaybeEmpty T code =
     (if code = [] then None
      else if \<not> ReISO3166 T code then
        Some (errorString
          ''origin_hint/country must match ISO-3166 pattern (e.g., US or US-CA)'')
      else None)"

text \<open>\<open>ValidateProvenanceTag\<close> (lines 62 to 105).\<close>

definition ValidateProvenanceTag ::
  "types_pkg \<Rightarrow> ProvenanceTag option \<Rightarrow> panic + error option" where
  "ValidateProvenanceTag T tp =
     (case tp of
        None \<Rightarrow> Inl NilDereference
      | Some t \<Rightarrow>
          (let me = MultiError [];
               me = (if AcctAgeBucket t = AcctAge_0_7d T \<or> AcctAgeBucket t = AcctAge_8_30d T
                        \<or> AcctAgeBucket t = AcctAge_1_6m T \<or> AcctAgeBucket t = AcctAge_6_24m T
                        \<or> AcctAgeBucket t = AcctAge_24mPlus T
                     then me
                     else Append me (Some (errors_New ''invalid acct_age_bucket'')));
               me = (if AcctType t = AcctTypePerson T \<or> AcctType t = AcctTypeOrg T
                        \<or> AcctType t = AcctTypeMedia T \<or> AcctType t = AcctTypePublicOfficial T
                        \<or> AcctType t = AcctTypeUnverified T
                        \<or> AcctType t = AcctTypeDeclaredAutomation T
                     then me
                     else Append me (Some (errors_New ''invalid acct_type'')));
               me = (if AutomationFlag t = AutomationManual T
                        \<or> AutomationFlag t = AutomationScheduled T
                        \<or> AutomationFlag t = AutomationAPICLIENT T
                        \<or> AutomationFlag t = AutomationDeclaredBot T
                     then me
                     else Append me (Some (errors_New ''invalid automation_flag'')));
               me = (if PostKind t = PostKindOriginal T \<or> PostKind t = PostKindReshare T
                        \<or> PostKind t = PostKindQuote T \<or> PostKind t = PostKindReply T
                     then me
                     else Append me (Some (errors_New ''invalid post_kind'')));
               me = (if ClientFamily t = ClientWeb T \<or> ClientFamily t = ClientMobile T
                        \<or> ClientFamily t = ClientThirdParty T
                     then me
                     else Append me (Some (errors_New ''invalid client_family'')));
               me = (if MediaProvenance t = MediaProvC2PA T
                        \<or> MediaProvenance t = MediaProvHash T
                        \<or> MediaProvenance t = MediaProvNone T
                     then me
                     else Append me (Some (errors_New ''invalid media_provenance'')));
               me = (if \<not> ReHex8 (DedupHash t)
                     then Append me (Some (errors_New ''dedup_hash must be 8 lowercase hex chars''))
                     else me);
               me = (case validateISO3166MaybeEmpty T (OriginHint t) of
                       Some err \<Rightarrow> Append me (Some err)
                     | None \<Rightarrow> me)
           in Inr (NilOrError me)))"

text \<open>
  The body of the loop over the points (lines 125 to 142), for the point \<open>p\<close> at index
  \<open>i\<close>. The byte sequences \<open>E2 89 A5\<close> and \<open>E2 80 93\<close> are the UTF-8 encodings of the
  greater-or-equal sign and of the en dash of the messages.
\<close>

definition ge_sign :: string where
  "ge_sign = [CHR 0xE2, CHR 0x89, CHR 0xA5]"

definition en_dash :: string where
  "en_dash = [CHR 0xE2, CHR 0x80, CHR 0x93]"

definition Points_body :: "nat \<Rightarrow> Point \<Rightarrow> MultiError \<Rightarrow> MultiError" where
  "Points_body i p me0 =
     (let me = me0;
          me = (if Volume p < 0
                then Append me (Some (errorString
                  (''points['' @ fmt_d i @ ''].volume must be '' @ ge_sign @ ''0'')))
                else me);
          me = (if f64_less (ReshareRatio p) (Finite 0) \<or> f64_greater (ReshareRatio p) (Finite 1)
                then Append me (Some (errorString
                  (''points['' @ fmt_d i @ ''].reshare_ratio must be 0'' @ en_dash @ ''1'')))
                else me);
          me = (if f64_less (RecycledContentRate p) (Finite 0)
                   \<or> f64_greater (RecycledContentRate p) (Finite 1)
                then Append me (Some (errorString
                  (''points['' @ fmt_d i @ ''].recycled_content_rate must be 0''
                     @ en_dash @ ''1'')))
                else me);
          me = (if f64_less (BurstScore (CoordinationSignals p)) (Finite 0)
                   \<or> f64_greater (BurstScore (CoordinationSignals p)) (Finite 1)
                then Append me (Some (errorString
                  (''points['' @ fmt_d i @ ''].coordination_signals.burst_score must be 0''
                     @ en_dash @ ''1'')))
                else me);
          me = (if f64_less (SynchronyIndex (CoordinationSignals p)) (Finite 0)
                   \<or> f64_greater (SynchronyIndex (CoordinationSignals p)) (Finite 1)
                then Append me (Some (errorString
                  (''points['' @ fmt_d i @ ''].coordination_signals.synchrony_index must be 0''
                     @ en_dash @ ''1'')))
                else me);
          me = (if DuplicationClusters (CoordinationSignals p) < 0
                then Append me (Some (errorString
                  (''points['' @ fmt_d i
                     @ ''].coordination_signals.duplication_clusters must be ''
                     @ ge_sign @ ''0'')))
                else me)
      in me)"

text \<open>The loop \<open>for i, p := range s.Points\<close> from index \<open>i\<close> on.\<close>

fun Points_range :: "nat \<Rightarrow> Point list \<Rightarrow> MultiError \<Rightarrow> MultiError" where
  "Points_range i [] me = me"
| "Points_range i (p # ps) me = Points_range (i + 1) ps (Points_body i p me)"

text \<open>\<open>ValidateSeries\<close> (lines 108 to 146).\<close>

definition ValidateSeries :: "Series option \<Rightarrow> panic + error option" where
  "ValidateSeries sp =
     (case sp of
        None \<Rightarrow> Inl NilDereference
      | Some s \<Rightarrow>
          (let me = MultiError [];
               me = (if Topic s = []
                     then Append me (Some (errors_New ''topic must be non-empty''))
                     else me);
               me = (if IsZero (GeneratedAt s)
                     then Append me (Some (errors_New ''generated_at must be set''))
                     else me);
               me = (if Interval s \<noteq> IntervalMinute
                     then Append me (Some (errors_New
                       (''interval must be '' @ [CHR 0x22] @ ''minute'' @ [CHR 0x22])))
                     else me);
               me = (if length (Points s) = 0
                     then Append me (Some (errors_New ''series must contain at least one point''))
                     else me);
               me = Points_range 0 (Points s) me
           in Inr (NilOrError me)))"

text \<open>\<open>MustProvenanceTag\<close> and \<open>MustSeries\<close> (lines 15 to 24).\<close>

definition MustProvenanceTag :: "types_pkg \<Rightarrow> ProvenanceTag option \<Rightarrow> panic + unit" where
  "MustProvenanceTag T t =
     (case ValidateProvenanceTag T t of
        Inl fault \<Rightarrow> Inl fault
      | Inr err \<Rightarrow> (case err of Some e \<Rightarrow> Inl (PanicValue e) | None \<Rightarrow> Inr ()))"

definition MustSeries :: "Series option \<Rightarrow> panic + unit" where
  "MustSeries s =
     (case ValidateSeries s of
        Inl fault \<Rightarrow> Inl fault
      | Inr err \<Rightarrow> (case err of Some e \<Rightarrow> Inl (PanicValue e) | None \<Rightarrow> Inr ()))"

section \<open>Calls through a pointer into a store of records\<close>




text \<open>The message of an outcome: the text of the returned error, if one is returned.\<close>

definition message_of :: "panic + error option \<Rightarrow> string option" where
  "message_of r = (case r of Inl fault \<Rightarrow> None | Inr err \<Rightarrow> map_option Error err)"

section \<open>The specification's notions\<close>


text \<open>
  A check is a pair of a condition, true when the check fails, and the description of
  the failure. The failures of a list of checks are the descriptions of the failing
  ones, in the order of the list.
\<close>

definition failures :: "(bool \<times> string) list \<Rightarrow> string list" where
  "failures cs = map snd (filter fst cs)"

text \<open>The named constants of each enumeration.\<close>

definition AcctAgeBucket_constants :: "types_pkg \<Rightarrow> string list" where
  "AcctAgeBucket_constants T =
     [AcctAge_0_7d T, AcctAge_8_30d T, AcctAge_1_6m T, AcctAge_6_24m T, AcctAge_24mPlus T]"

definition AcctType_constants :: "types_pkg \<Rightarrow> string list" where
  "AcctType_constants T =
     [AcctTypePerson T, AcctTypeOrg T, AcctTypeMedia T, AcctTypePublicOfficial T,
      AcctTypeUnverified T, AcctTypeDeclaredAutomation T]"

definition AutomationFlag_constants :: "types_pkg \<Rightarrow> string list" where
  "AutomationFlag_constants T =
     [AutomationManual T, AutomationScheduled T, AutomationAPICLIENT T, AutomationDeclaredBot T]"

definition PostKind_constants :: "types_pkg \<Rightarrow> string list" where
  "PostKind_constants T =
     [PostKindOriginal T, PostKindReshare T, PostKindQuote T, PostKindReply T]"

definition ClientFamily_constants :: "types_pkg \<Rightarrow> string list" where
  "ClientFamily_constants T = [ClientWeb T, ClientMobile T, ClientThirdParty T]"

definition MediaProvenance_constants :: "types_pkg \<Rightarrow> string list" where
  "MediaProvenance_constants T = [MediaProvC2PA T, MediaProvHash T, MediaProvNone T]"

text \<open>
  The eight checks of a provenance tag in their fixed order: the six enumeration fields
  in declaration order, the dedup hash, the origin hint.
\<close>

definition tag_checks :: "types_pkg \<Rightarrow> ProvenanceTag \<Rightarrow> (bool \<times> string) list" where
  "tag_checks T t =
     [(AcctAgeBucket t \<notin> set (AcctAgeBucket_constants T), ''invalid acct_age_bucket''),
      (AcctType t \<notin> set (AcctType_constants T), ''invalid acct_type''),
      (AutomationFlag t \<notin> set (AutomationFlag_constants T), ''invalid automation_flag''),
      (PostKind t \<notin> set (PostKind_constants T), ''invalid post_kind''),
      (ClientFamily t \<notin> set (ClientFamily_constants T), ''invalid client_family''),
      (MediaProvenance t \<notin> set (MediaProvenance_constants T),
         ''invalid media_provenance''),
      (\<not> ReHex8 (DedupHash t), ''dedup_hash must be 8 lowercase hex chars''),
      (OriginHint t \<noteq> [] \<and> \<not> ReISO3166 T (OriginHint t),
         ''origin_hint/country must match ISO-3166 pattern (e.g., US or US-CA)'')]"

text \<open>
  A ratio or index is out of range when it is strictly below 0 or strictly above 1.
  A NaN is neither, and it is not within the bounds either.
\<close>

definition out_of_range :: "float64 \<Rightarrow> bool" where
  "out_of_range x = (f64_less x (Finite 0) \<or> f64_less (Finite 1) x)"

fun f64_le :: "float64 \<Rightarrow> float64 \<Rightarrow> bool" where
  "f64_le (Finite a) (Finite b) = (a \<le> b)"
| "f64_le NaN _ = False"
| "f64_le _ NaN = False"
| "f64_le NegInf _ = True"
| "f64_le _ PosInf = True"
| "f64_le _ _ = False"

definition in_unit_interval :: "float64 \<Rightarrow> bool" where
  "in_unit_interval x = (f64_le (Finite 0) x \<and> f64_le x (Finite 1))"

text \<open>The descriptions of the per-point failures, for the point at index \<open>i\<close>.\<close>

definition point_prefix :: "nat \<Rightarrow> string" where
  "point_prefix i = ''points['' @ fmt_d i @ '']''"

definition volume_failure :: "nat \<Rightarrow> string" where
  "volume_failure i = point_prefix i @ ''.volume must be '' @ ge_sign @ ''0''"

definition reshare_ratio_failure :: "nat \<Rightarrow> string" where
  "reshare_ratio_failure i = point_prefix i @ ''.reshare_ratio must be 0'' @ en_dash @ ''1''"

definition recycled_content_rate_failure :: "nat \<Rightarrow> string" where
  "recycled_content_rate_failure i =
     point_prefix i @ ''.recycled_content_rate must be 0'' @ en_dash @ ''1''"

definition burst_score_failure :: "nat \<Rightarrow> string" where
  "burst_score_failure i =
     point_prefix i @ ''.coordination_signals.burst_score must be 0'' @ en_dash @ ''1''"

definition synchrony_index_failure :: "nat \<Rightarrow> string" where
  "synchrony_index_failure i =
     point_prefix i @ ''.coordination_signals.synchrony_index must be 0'' @ en_dash @ ''1''"

definition duplication_clusters_failure :: "nat \<Rightarrow> string" where
  "duplication_clusters_failure i =
     point_prefix i @ ''.coordination_signals.duplication_clusters must be '' @ ge_sign @ ''0''"

text \<open>The six checks of the point at index \<open>i\<close>, in their fixed order.\<close>

definition point_checks :: "nat \<Rightarrow> Point \<Rightarrow> (bool \<times> string) list" where
  "point_checks i p =
     [(Volume p < 0, volume_failure i),
      (out_of_range (ReshareRatio p), reshare_ratio_failure i),
      (out_of_range (RecycledContentRate p), recycled_content_rate_failure i),
      (out_of_range (BurstScore (CoordinationSignals p)), burst_score_failure i),
      (out_of_range (SynchronyIndex (CoordinationSignals p)), synchrony_index_failure i),
      (DuplicationClusters (CoordinationSignals p) < 0, duplication_clusters_failure i)]"

text \<open>The checks of the points from index \<open>i\<close> on, in ascending index order.\<close>

fun points_checks :: "nat \<Rightarrow> Point list \<Rightarrow> (bool \<times> string) list" where
  "points_checks i [] = []"
| "points_checks i (p # ps) = point_checks i p @ points_checks (i + 1) ps"

text \<open>The four entity-level checks of a series, then the checks of its points.\<close>

definition entity_checks :: "Series \<Rightarrow> (bool \<times> string) list" where
  "entity_checks s =
     [(Topic s = [], ''topic must be non-empty''),
      (IsZero (GeneratedAt s), ''generated_at must be set''),
      (Interval s \<noteq> ''minute'', ''interval must be '' @ [CHR 0x22] @ ''minute'' @ [CHR 0x22]),
      (Points s = [], ''series must contain at least one point'')]"

definition series_checks :: "Series \<Rightarrow> (bool \<times> string) list" where
  "series_checks s = entity_checks s @ points_checks 0 (Points s)"

text \<open>The invariants of the two record types, as the specification lists them.\<close>

definition valid_ProvenanceTag :: "types_pkg \<Rightarrow> ProvenanceTag \<Rightarrow> bool" where
  "valid_ProvenanceTag T t =
     (AcctAgeBucket t \<in> set (AcctAgeBucket_constants T)
      \<and> AcctType t \<in> set (AcctType_constants T)
      \<and> AutomationFlag t \<in> set (AutomationFlag_constants T)
      \<and> PostKind t \<in> set (PostKind_constants T)
      \<and> ClientFamily t \<in> set (ClientFamily_constants T)
      \<and> MediaProvenance t \<in> set (MediaProvenance_constants T)
      \<and> ReHex8 (DedupHash t)
      \<and> (OriginHint t = [] \<or> ReISO3166 T (OriginHint t)))"

definition valid_Point :: "Point \<Rightarrow> bool" where
  "valid_Point p =
     (0 \<le> Volume p
      \<and> in_unit_interval (ReshareRatio p)
      \<and> in_unit_interval (RecycledContentRate p)
      \<and> in_unit_interval (BurstScore (CoordinationSignals p))
      \<and> in_unit_interval (SynchronyIndex (CoordinationSignals p))
      \<and> 0 \<le> DuplicationClusters (CoordinationSignals p))"

definition valid_Series :: "Series \<Rightarrow> bool" where
  "valid_Series s =
     (Topic s \<noteq> [] \<and> \<not> IsZero (GeneratedAt s) \<and> Interval s = ''minute''
      \<and> Points s \<noteq> [] \<and> list_all valid_Point (Points s))"

text \<open>The errors that \<open>ValidateSeries\<close> records for a series, in the order recorded.\<close>

definition recorded_Series :: "Series \<Rightarrow> error list" where
  "recorded_Series s =
     (case ValidateSeries (Some s) of
        Inr (Some (MultiErrorPtr m)) \<Rightarrow> errs m
      | _ \<Rightarrow> [])"

section \<open>Concrete records\<close>

text \<open>
  One value of the parameters and a few records, to evaluate the model at concrete
  inputs. The pattern is the usual shape of a country or subdivision code: two capital
  letters, optionally followed by a hyphen and one to three capital letters or digits.
\<close>

definition capital :: "char \<Rightarrow> bool" where
  "capital c = (c \<in> set ''ABCDEFGHIJKLMNOPQRSTUVWXYZ'')"

definition capital_or_digit :: "char \<Rightarrow> bool" where
  "capital_or_digit c = (c \<in> set ''ABCDEFGHIJKLMNOPQRSTUVWXYZ0123456789'')"

fun sample_ReISO3166 :: "string \<Rightarrow> bool" where
  "sample_ReISO3166 (a # b # rest) =
     (capital a \<and> capital b \<and>
      (case rest of
         [] \<Rightarrow> True
       | h # sub \<Rightarrow> h = CHR ''-'' \<and> 1 \<le> length sub \<and> length sub \<le> 3
                     \<and> list_all capital_or_digit sub))"
| "sample_ReISO3166 _ = False"

definition sample_types :: types_pkg where
  "sample_types =
     \<lparr>AcctAge_0_7d = ''0-7d'', AcctAge_8_30d = ''8-30d'', AcctAge_1_6m = ''1-6m'',
      AcctAge_6_24m = ''6-24m'', AcctAge_24mPlus = ''24m+'',
      AcctTypePerson = ''person'', AcctTypeOrg = ''org'', AcctTypeMedia = ''media'',
      AcctTypePublicOfficial = ''public_official'', AcctTypeUnverified = ''unverified'',
      AcctTypeDeclaredAutomation = ''declared_automation'',
      AutomationManual = ''manual'', AutomationScheduled = ''scheduled'',
      AutomationAPICLIENT = ''api_client'', AutomationDeclaredBot = ''declared_bot'',
      PostKindOriginal = ''original'', PostKindReshare = ''reshare'',
      PostKindQuote = ''quote'', PostKindReply = ''reply'',
      ClientWeb = ''web'', ClientMobile = ''mobile'', ClientThirdParty = ''third_party'',
      MediaProvC2PA = ''c2pa'', MediaProvHash = ''hash'', MediaProvNone = ''none'',
      ReISO3166 = sample_ReISO3166\<rparr>"

definition sample_tag :: ProvenanceTag where
  "sample_tag =
     \<lparr>AcctAgeBucket = ''1-6m'', AcctType = ''person'', AutomationFlag = ''manual'',
      PostKind = ''original'', ClientFamily = ''web'', MediaProvenance = ''none'',
      DedupHash = ''0a1b2c3d'', OriginHint = ''US-CA''\<rparr>"

definition sample_point :: Point where
  "sample_point =
     \<lparr>Volume = 12, ReshareRatio = Finite (1 / 4), RecycledContentRate = Finite 0,
      CoordinationSignals =
        \<lparr>BurstScore = Finite 1, SynchronyIndex = Finite (1 / 2), DuplicationClusters = 0\<rparr>\<rparr>"

definition sample_series :: Series where
  "sample_series =
     \<lparr>Topic = ''elections'', GeneratedAt = \<lparr>sec = 63900000000, nsec = 0\<rparr>,
      Interval = ''minute'', Points = [sample_point, sample_point]\<rparr>"


text \<open>
  The four fields of a point that hold a ratio or an index, each with the description of
  its out-of-range failure.
\<close>

definition ratio_fields :: "((Point \<Rightarrow> float64) \<times> (nat \<Rightarrow> string)) list" where
  "ratio_fields =
     [(ReshareRatio, reshare_ratio_failure),
      (RecycledContentRate, recycled_content_rate_failure),
      (\<lambda>p. BurstScore (CoordinationSignals p), burst_score_failure),
      (\<lambda>p. SynchronyIndex (CoordinationSignals p), synchrony_index_failure)]"

text \<open>
  A tag with an account type outside its enumeration and a dedup hash that is not
  hexadecimal; a series with a wrong interval and one point of negative volume; a series
  whose reshare ratios sit on and just outside the bounds; a series without points; a
  series whose only defect is a NaN ratio; and a store that holds the faulty tag at
  address 0 and the faulty series at address 1.
\<close>

definition bad_tag :: ProvenanceTag where
  "bad_tag = sample_tag\<lparr>AcctType := ''robot'', DedupHash := ''ZZZZZZZZ''\<rparr>"


definition boundary_series :: Series where
  "boundary_series =
     sample_series\<lparr>Points :=
       [sample_point\<lparr>ReshareRatio := Finite 0\<rparr>,
        sample_point\<lparr>ReshareRatio := Finite 1\<rparr>,
        sample_point\<lparr>ReshareRatio := Finite (- 1 / 10000000)\<rparr>,
        sample_point\<lparr>ReshareRatio := Finite (10000001 / 10000000)\<rparr>]\<rparr>"

definition empty_series :: Series where
  "empty_series = sample_series\<lparr>Points := []\<rparr>"

definition nan_series :: Series where
  "nan_series = sample_series\<lparr>Points := [sample_point\<lparr>ReshareRatio := NaN\<rparr>]\<rparr>"


section \<open>Facts about the model\<close>

subsection \<open>Rendering the recorded errors\<close>







subsection \<open>One step of a validator\<close>

text \<open>
  Each check of a validator either leaves the aggregator as it is or appends one error
  at its end.
\<close>

lemma Append_None: "Append m None = m"
  by (simp add: Append_def)

lemma Append_Some: "Append m (Some e) = MultiError (errs m @ [e])"
  by (simp add: Append_def)

lemma errs_foldl_Append:
  "errs (foldl Append m xs) = errs m @ map the (filter (\<lambda>x. x \<noteq> None) xs)"
proof (induction xs arbitrary: m)
  case Nil
  show ?case by simp
next
  case (Cons x xs)
  show ?case by (cases x) (simp_all add: Cons.IH Append_None Append_Some)
qed

lemma step_unless:
  "(if c then me else Append me (Some e)) = MultiError (errs me @ (if \<not> c then [e] else []))"
  by (cases me) (simp add: Append_def)

lemma step_when:
  "(if c then Append me (Some e) else me) = MultiError (errs me @ (if c then [e] else []))"
  by (cases me) (simp add: Append_def)

lemma validateISO_step:
  "(case validateISO3166MaybeEmpty T code of Some err \<Rightarrow> Append me (Some err) | None \<Rightarrow> me) =
     MultiError (errs me @
       (if code \<noteq> [] \<and> \<not> ReISO3166 T code
        then [errorString ''origin_hint/country must match ISO-3166 pattern (e.g., US or US-CA)'']
        else []))"
  by (cases me) (simp add: validateISO3166MaybeEmpty_def Append_def)

lemma map_errorString_if: "map errorString (if c then [d] else []) = (if c then [errorString d] else [])"
  by simp


lemma NilOrError_empty: "NilOrError (MultiError []) = None"
  by (simp add: NilOrError_def)

lemma failures_Cons: "failures ((c, d) # cs) = (if c then [d] else []) @ failures cs"
  by (simp add: failures_def)

lemma failures_Nil: "failures [] = []"
  by (simp add: failures_def)

lemma failures_append: "failures (xs @ ys) = failures xs @ failures ys"
  by (simp add: failures_def)

lemma in_failures: "d \<in> set (failures cs) = ((True, d) \<in> set cs)"
  by (induction cs) (auto simp: failures_def)


subsection \<open>What the validators record\<close>

text \<open>
  Each validator records exactly the descriptions of its failing checks, in the order
  of the checks.
\<close>

lemma ValidateProvenanceTag_nil: "ValidateProvenanceTag T None = Inl NilDereference"
  by (simp add: ValidateProvenanceTag_def)

lemma ValidateSeries_nil: "ValidateSeries None = Inl NilDereference"
  by (simp add: ValidateSeries_def)

lemma ValidateProvenanceTag_recorded:
  "ValidateProvenanceTag T (Some t) =
     Inr (NilOrError (MultiError (map errorString (failures (tag_checks T t)))))"
  unfolding ValidateProvenanceTag_def tag_checks_def
  by (simp only: option.case Let_def step_unless step_when validateISO_step failures_Cons failures_Nil
       map_append map_errorString_if errors_New_def MultiError.sel append_Nil append_Nil2 append_assoc
       AcctAgeBucket_constants_def AcctType_constants_def AutomationFlag_constants_def
       PostKind_constants_def ClientFamily_constants_def MediaProvenance_constants_def
       list.set insert_iff empty_iff simp_thms de_Morgan_disj not_not)

lemma Points_body_recorded:
  "Points_body i p me = MultiError (errs me @ map errorString (failures (point_checks i p)))"
  unfolding Points_body_def point_checks_def
  by (simp only: Let_def step_when failures_Cons failures_Nil map_append map_errorString_if
       MultiError.sel append_Nil append_Nil2 append_assoc out_of_range_def f64_greater_def
       volume_failure_def reshare_ratio_failure_def recycled_content_rate_failure_def
       burst_score_failure_def synchrony_index_failure_def duplication_clusters_failure_def
       point_prefix_def append_Cons)

lemma Points_range_recorded:
  "Points_range i ps me = MultiError (errs me @ map errorString (failures (points_checks i ps)))"
proof (induction ps arbitrary: i me)
  case Nil
  show ?case by (simp add: failures_Nil)
next
  case (Cons p ps)
  show ?case
    by (simp add: Cons.IH Points_body_recorded failures_append)
qed

lemma ValidateSeries_recorded:
  "ValidateSeries (Some s) =
     Inr (NilOrError (MultiError (map errorString (failures (series_checks s)))))"
  unfolding ValidateSeries_def series_checks_def entity_checks_def
  by (simp only: option.case Let_def step_when failures_Cons failures_Nil failures_append
       map_append map_errorString_if errors_New_def MultiError.sel append_Nil append_Nil2
       append_assoc Points_range_recorded IntervalMinute_def length_0_conv)

lemma recorded_Series_eq:
  "recorded_Series s = map errorString (failures (series_checks s))"
  by (simp add: recorded_Series_def ValidateSeries_recorded NilOrError_def)

lemma in_recorded_Series:
  "(errorString d \<in> set (recorded_Series s)) = ((True, d) \<in> set (series_checks s))"
  by (auto simp add: recorded_Series_eq in_failures)

subsection \<open>Decimal indices and the descriptions of point failures\<close>

text \<open>
  The decimal rendering of an index consists of digits only and determines the index,
  so the descriptions of two point failures agree only for the same index and the same
  field.
\<close>

lemma digit_char_code: "d < 10 \<Longrightarrow> (of_char (digit_char d) :: nat) = 48 + d"
  by (simp add: digit_char_def)

lemma digit_char_inj: "d < 10 \<Longrightarrow> d' < 10 \<Longrightarrow> digit_char d = digit_char d' \<Longrightarrow> d = d'"
proof -
  assume a: "d < 10" and b: "d' < 10" and c: "digit_char d = digit_char d'"
  have "48 + d = (of_char (digit_char d) :: nat)"
    using a by (simp add: digit_char_code)
  also have "\<dots> = of_char (digit_char d')"
    by (simp only: c)
  also have "\<dots> = 48 + d'"
    using b by (simp add: digit_char_code)
  finally show ?thesis by simp
qed

lemma digit_char_neq:
  assumes "d < 10" and "(of_char c :: nat) < 48 \<or> 57 < (of_char c :: nat)"
  shows "digit_char d \<noteq> c"
proof
  assume c: "digit_char d = c"
  have "48 + d = (of_char (digit_char d) :: nat)"
    using assms(1) by (simp add: digit_char_code)
  also have "\<dots> = of_char c"
    by (simp only: c)
  finally show False using assms by auto
qed

lemma fmt_d_avoids:
  assumes "(of_char c :: nat) < 48 \<or> 57 < (of_char c :: nat)"
  shows "c \<notin> set (fmt_d n)"
proof (induction n rule: fmt_d.induct)
  case (1 n)
  show ?case
  proof (cases "n < 10")
    case True
    then show ?thesis
      using digit_char_neq [OF True assms] by (subst fmt_d.simps) auto
  next
    case False
    have "n mod 10 < 10" by simp
    then have "digit_char (n mod 10) \<noteq> c" using assms by (rule digit_char_neq)
    with False 1 show ?thesis by (subst fmt_d.simps) auto
  qed
qed

lemma fmt_d_no_bracket: "CHR '']'' \<notin> set (fmt_d n)"
  by (rule fmt_d_avoids) simp


lemma fmt_d_nonempty: "fmt_d n \<noteq> []"
  by (subst fmt_d.simps) simp

lemma fmt_d_inj: "fmt_d n = fmt_d m \<Longrightarrow> n = m"
proof (induction n arbitrary: m rule: fmt_d.induct)
  case (1 n)
  show ?case
  proof (cases "n < 10")
    case n: True
    show ?thesis
    proof (cases "m < 10")
      case True
      with n "1.prems" have "digit_char n = digit_char m"
        by (simp add: fmt_d.simps [of n] fmt_d.simps [of m])
      with n True show ?thesis by (rule digit_char_inj)
    next
      case False
      with n "1.prems" have "[digit_char n] = fmt_d (m div 10) @ [digit_char (m mod 10)]"
        by (simp add: fmt_d.simps [of n] fmt_d.simps [of m])
      then have "fmt_d (m div 10) = []" by simp
      then show ?thesis using fmt_d_nonempty by blast
    qed
  next
    case n: False
    show ?thesis
    proof (cases "m < 10")
      case True
      with n "1.prems" have "fmt_d (n div 10) @ [digit_char (n mod 10)] = [digit_char m]"
        by (simp add: fmt_d.simps [of n] fmt_d.simps [of m])
      then have "fmt_d (n div 10) = []" by simp
      then show ?thesis using fmt_d_nonempty by blast
    next
      case False
      with n "1.prems" have
        "fmt_d (n div 10) @ [digit_char (n mod 10)] = fmt_d (m div 10) @ [digit_char (m mod 10)]"
        by (simp add: fmt_d.simps [of n] fmt_d.simps [of m])
      then have a: "fmt_d (n div 10) = fmt_d (m div 10)"
        and b: "digit_char (n mod 10) = digit_char (m mod 10)" by simp_all
      from a n have "n div 10 = m div 10" by (rule "1.IH" [rotated])
      moreover from b have "n mod 10 = m mod 10" by (intro digit_char_inj) simp_all
      ultimately show ?thesis by (metis div_mult_mod_eq)
    qed
  qed
qed


lemma split_at_bracket:
  "CHR '']'' \<notin> set a \<Longrightarrow> CHR '']'' \<notin> set b \<Longrightarrow>
   a @ CHR '']'' # r = b @ CHR '']'' # r' \<Longrightarrow> a = b \<and> r = r'"
proof (induction a arbitrary: b)
  case Nil
  then show ?case by (cases b) auto
next
  case (Cons x a)
  then show ?case by (cases b) auto
qed

lemma point_prefix_eq:
  "(point_prefix i @ r = point_prefix j @ r') = (i = j \<and> r = r')"
proof
  assume "point_prefix i @ r = point_prefix j @ r'"
  then have "fmt_d i @ CHR '']'' # r = fmt_d j @ CHR '']'' # r'"
    by (simp add: point_prefix_def)
  then have "fmt_d i = fmt_d j \<and> r = r'"
    by (intro split_at_bracket fmt_d_no_bracket)
  then show "i = j \<and> r = r'" using fmt_d_inj by blast
next
  assume "i = j \<and> r = r'"
  then show "point_prefix i @ r = point_prefix j @ r'" by simp
qed

lemma point_prefix_inj: "(point_prefix i = point_prefix j) = (i = j)"
  using point_prefix_eq [of i "[]" j "[]"] by simp

lemmas failure_defs =
  volume_failure_def reshare_ratio_failure_def recycled_content_rate_failure_def
  burst_score_failure_def synchrony_index_failure_def duplication_clusters_failure_def

lemma in_points_checks:
  "((True, d) \<in> set (points_checks k ps)) =
     (\<exists>j < length ps. (True, d) \<in> set (point_checks (k + j) (ps ! j)))"
proof (induction ps arbitrary: k)
  case Nil
  show ?case by simp
next
  case (Cons p ps)
  have "(\<exists>j < length (p # ps). (True, d) \<in> set (point_checks (k + j) ((p # ps) ! j))) =
        ((True, d) \<in> set (point_checks k p) \<or>
         (\<exists>j < length ps. (True, d) \<in> set (point_checks (Suc k + j) (ps ! j))))"
    by (simp add: Ex_less_Suc2) 
  then show ?case by (simp add: Cons.IH)
qed

lemma reshare_ratio_in_point_checks:
  "((True, reshare_ratio_failure i) \<in> set (point_checks j p)) =
     (j = i \<and> out_of_range (ReshareRatio p))"
  by (auto simp add: point_checks_def failure_defs point_prefix_eq point_prefix_inj ge_sign_def en_dash_def)

lemma recycled_content_rate_in_point_checks:
  "((True, recycled_content_rate_failure i) \<in> set (point_checks j p)) =
     (j = i \<and> out_of_range (RecycledContentRate p))"
  by (auto simp add: point_checks_def failure_defs point_prefix_eq point_prefix_inj ge_sign_def en_dash_def)

lemma burst_score_in_point_checks:
  "((True, burst_score_failure i) \<in> set (point_checks j p)) =
     (j = i \<and> out_of_range (BurstScore (CoordinationSignals p)))"
  by (auto simp add: point_checks_def failure_defs point_prefix_eq point_prefix_inj ge_sign_def en_dash_def)

lemma synchrony_index_in_point_checks:
  "((True, synchrony_index_failure i) \<in> set (point_checks j p)) =
     (j = i \<and> out_of_range (SynchronyIndex (CoordinationSignals p)))"
  by (auto simp add: point_checks_def failure_defs point_prefix_eq point_prefix_inj ge_sign_def en_dash_def)

lemma point_failure_not_entity:
  "(True, point_prefix i @ r) \<notin> set (entity_checks s)"
  by (simp add: entity_checks_def point_prefix_def)

lemma ratio_field_recorded:
  assumes "(get, msg) \<in> set ratio_fields" and "i < length (Points s)"
  shows "(errorString (msg i) \<in> set (recorded_Series s)) = out_of_range (get (Points s ! i))"
proof -
  have a: "\<exists>r. msg i = point_prefix i @ r"
    using assms(1) by (auto simp add: ratio_fields_def failure_defs)
  have b: "\<And>j p. ((True, msg i) \<in> set (point_checks j p)) = (j = i \<and> out_of_range (get p))"
    using assms(1)
    by (auto simp add: ratio_fields_def reshare_ratio_in_point_checks
          recycled_content_rate_in_point_checks burst_score_in_point_checks
          synchrony_index_in_point_checks)
  from a have c: "(True, msg i) \<notin> set (entity_checks s)"
    using point_failure_not_entity by auto
  have "(errorString (msg i) \<in> set (recorded_Series s)) =
          (\<exists>j < length (Points s). (True, msg i) \<in> set (point_checks j (Points s ! j)))"
    using c by (simp add: in_recorded_Series series_checks_def in_points_checks)
  also have "\<dots> = out_of_range (get (Points s ! i))"
    using assms(2) by (auto simp add: b)
  finally show ?thesis .
qed

subsection \<open>No description contains a semicolon\<close>





subsection \<open>Valid records have no failing check\<close>

lemma in_unit_not_out: "in_unit_interval x \<Longrightarrow> \<not> out_of_range x"
  by (cases x) (auto simp add: in_unit_interval_def out_of_range_def)

lemma valid_tag_no_failures: "valid_ProvenanceTag T t \<Longrightarrow> failures (tag_checks T t) = []"
  by (simp add: valid_ProvenanceTag_def tag_checks_def failures_def)

lemma valid_point_no_failures: "valid_Point p \<Longrightarrow> failures (point_checks i p) = []"
  by (simp add: valid_Point_def point_checks_def failures_def in_unit_not_out)

lemma valid_points_no_failures:
  "list_all valid_Point ps \<Longrightarrow> failures (points_checks i ps) = []"
  by (induction ps arbitrary: i) (simp_all add: failures_append failures_Nil valid_point_no_failures)

lemma valid_series_no_failures: "valid_Series s \<Longrightarrow> failures (series_checks s) = []"
  by (simp add: valid_Series_def series_checks_def entity_checks_def failures_append
        failures_Cons failures_Nil valid_points_no_failures)

subsection \<open>The concrete records\<close>

lemma sample_tag_valid: "valid_ProvenanceTag sample_types sample_tag"
  by (simp add: valid_ProvenanceTag_def sample_types_def sample_tag_def
        AcctAgeBucket_constants_def AcctType_constants_def AutomationFlag_constants_def
        PostKind_constants_def ClientFamily_constants_def MediaProvenance_constants_def
        ReHex8_def hex_lower_def capital_def capital_or_digit_def)

lemma sample_series_valid: "valid_Series sample_series"
  by (simp add: valid_Series_def valid_Point_def sample_series_def sample_point_def
        IsZero_def in_unit_interval_def)



subsection \<open>A NaN passes the range checks\<close>

text \<open>
  Both comparisons of a range check are false for a NaN, so a series whose only defect
  is a NaN ratio is accepted, although a NaN does not lie between 0 and 1.
\<close>

lemma nan_not_in_unit_interval: "\<not> in_unit_interval NaN"
  by (simp add: in_unit_interval_def)

lemma nan_series_accepted: "ValidateSeries (Some nan_series) = Inr None"
  by (simp add: ValidateSeries_recorded NilOrError_def series_checks_def entity_checks_def
        point_checks_def failures_def nan_series_def sample_series_def sample_point_def
        IsZero_def out_of_range_def)

section \<open>The claims\<close>



text \<open>
  C2. A provenance tag whose six enumeration fields are each one of their named
  constants, whose dedup hash consists of eight lowercase hexadecimal characters and
  whose origin hint is empty or matches the ISO-3166 pattern is accepted:
  \<open>ValidateProvenanceTag\<close> returns nil. A series with a non-empty topic, a non-zero
  generation timestamp, the interval \<open>minute\<close>, at least one point, and in every point
  a volume and a duplication-cluster count of at least 0 and ratios and indices between
  0 and 1 inclusive is accepted: \<open>ValidateSeries\<close> returns nil.
\<close>

theorem valid_records_accepted:
  "(valid_ProvenanceTag T t \<longrightarrow> ValidateProvenanceTag T (Some t) = Inr None)
   \<and> (valid_Series s \<longrightarrow> ValidateSeries (Some s) = Inr None)"
  by (simp add: ValidateProvenanceTag_recorded ValidateSeries_recorded
        valid_tag_no_failures valid_series_no_failures NilOrError_empty)

theorem valid_records_accepted_witness:
  "valid_ProvenanceTag sample_types sample_tag
   \<and> ValidateProvenanceTag sample_types (Some sample_tag) = Inr None
   \<and> valid_Series sample_series
   \<and> ValidateSeries (Some sample_series) = Inr None"
  using valid_records_accepted [of sample_types sample_tag sample_series] sample_tag_valid sample_series_valid
  by simp

text \<open>
  C3. \<open>NilOrError\<close> returns the nil error when no failure has been recorded, and the
  aggregator itself, as a non-nil error, otherwise; an aggregator that it returns as an
  error never holds zero recorded errors.
\<close>

theorem NilOrError_nil_iff_empty:
  "(length (errs m) = 0 \<longrightarrow> NilOrError m = None)
   \<and> (length (errs m) \<noteq> 0 \<longrightarrow> NilOrError m = Some (MultiErrorPtr m))
   \<and> (\<forall>m'. NilOrError m = Some (MultiErrorPtr m') \<longrightarrow> length (errs m') \<noteq> 0)"
  by (auto simp add: NilOrError_def)

theorem NilOrError_nil_iff_empty_witness:
  "length (errs (MultiError [])) = 0 \<and> NilOrError (MultiError []) = None
   \<and> length (errs (MultiError [errorString ''invalid acct_type''])) \<noteq> 0
   \<and> NilOrError (MultiError [errorString ''invalid acct_type'']) =
       Some (MultiErrorPtr (MultiError [errorString ''invalid acct_type'']))"
  using NilOrError_nil_iff_empty [of "MultiError []"] NilOrError_nil_iff_empty [of "MultiError [errorString ''invalid acct_type'']"]
  by simp

text \<open>
  C4. For a series without points whose topic, generation timestamp and interval are
  valid, \<open>ValidateSeries\<close> reports exactly one failure, that the series must contain at
  least one point, and no recorded error is a per-point failure of any index.
\<close>

theorem empty_points_single_failure:
  "Points s = [] \<and> Topic s \<noteq> [] \<and> \<not> IsZero (GeneratedAt s) \<and> Interval s = ''minute'' \<longrightarrow>
     ValidateSeries (Some s) =
       Inr (Some (MultiErrorPtr (MultiError
         [errorString ''series must contain at least one point''])))
     \<and> message_of (ValidateSeries (Some s)) = Some ''series must contain at least one point''
     \<and> (\<forall>i r. errorString (point_prefix i @ r) \<notin> set (recorded_Series s))"
proof (intro impI)
  assume a: "Points s = [] \<and> Topic s \<noteq> [] \<and> \<not> IsZero (GeneratedAt s) \<and> Interval s = ''minute''"
  then have f: "failures (series_checks s) = [''series must contain at least one point'']"
    by (simp add: series_checks_def entity_checks_def failures_def)
  have v: "ValidateSeries (Some s) =
       Inr (Some (MultiErrorPtr (MultiError
         [errorString ''series must contain at least one point''])))"
    by (simp add: ValidateSeries_recorded f NilOrError_def)
  have m: "message_of (ValidateSeries (Some s)) = Some ''series must contain at least one point''"
    by (simp add: v message_of_def)
  have n: "\<forall>i r. errorString (point_prefix i @ r) \<notin> set (recorded_Series s)"
    by (simp add: recorded_Series_eq f point_prefix_def)
  from v m n show "ValidateSeries (Some s) =
       Inr (Some (MultiErrorPtr (MultiError
         [errorString ''series must contain at least one point''])))
     \<and> message_of (ValidateSeries (Some s)) = Some ''series must contain at least one point''
     \<and> (\<forall>i r. errorString (point_prefix i @ r) \<notin> set (recorded_Series s))"
    by blast
qed

theorem empty_points_single_failure_witness:
  "Points empty_series = []
   \<and> message_of (ValidateSeries (Some empty_series)) =
       Some ''series must contain at least one point''
   \<and> recorded_Series empty_series = [errorString ''series must contain at least one point'']"
proof -
  have h: "Points empty_series = [] \<and> Topic empty_series \<noteq> []
             \<and> \<not> IsZero (GeneratedAt empty_series) \<and> Interval empty_series = ''minute''"
    by (simp add: empty_series_def sample_series_def IsZero_def)
  from empty_points_single_failure [of empty_series] h
  have "ValidateSeries (Some empty_series) =
       Inr (Some (MultiErrorPtr (MultiError
         [errorString ''series must contain at least one point''])))
     \<and> message_of (ValidateSeries (Some empty_series)) =
         Some ''series must contain at least one point''"
    by blast
  with h show ?thesis by (simp add: recorded_Series_def message_of_def)
qed

text \<open>
  C5. For each point of a series and each of its reshare ratio, recycled-content rate,
  burst score and synchrony index: a value of exactly 0 or exactly 1 produces no failure
  of that field at that index, and a value strictly below 0 or strictly above 1 produces
  it.
\<close>

theorem range_checks_inclusive:
  "(get, msg) \<in> set ratio_fields \<and> i < length (Points s) \<and> x = get (Points s ! i) \<longrightarrow>
     (x = Finite 0 \<or> x = Finite 1 \<longrightarrow> errorString (msg i) \<notin> set (recorded_Series s))
     \<and> (f64_less x (Finite 0) \<or> f64_greater x (Finite 1) \<longrightarrow>
          errorString (msg i) \<in> set (recorded_Series s))"
proof (intro impI)
  assume a: "(get, msg) \<in> set ratio_fields \<and> i < length (Points s) \<and> x = get (Points s ! i)"
  then have r: "(errorString (msg i) \<in> set (recorded_Series s)) = out_of_range x"
    by (simp add: ratio_field_recorded)
  show "(x = Finite 0 \<or> x = Finite 1 \<longrightarrow> errorString (msg i) \<notin> set (recorded_Series s))
     \<and> (f64_less x (Finite 0) \<or> f64_greater x (Finite 1) \<longrightarrow>
          errorString (msg i) \<in> set (recorded_Series s))"
    unfolding r by (auto simp add: out_of_range_def f64_greater_def)
qed

text \<open>
  Reshare ratios of 0, 1, -0.0000001 and 1.0000001 at the indices 0 to 3: the first two
  are accepted, the last two are reported.
\<close>

theorem range_checks_inclusive_witness:
  "errorString (reshare_ratio_failure 0) \<notin> set (recorded_Series boundary_series)
   \<and> errorString (reshare_ratio_failure 1) \<notin> set (recorded_Series boundary_series)
   \<and> errorString (reshare_ratio_failure 2) \<in> set (recorded_Series boundary_series)
   \<and> errorString (reshare_ratio_failure 3) \<in> set (recorded_Series boundary_series)"
proof -
  have f: "(ReshareRatio, reshare_ratio_failure) \<in> set ratio_fields"
    by (simp add: ratio_fields_def)
  have p: "Points boundary_series =
       [sample_point\<lparr>ReshareRatio := Finite 0\<rparr>,
        sample_point\<lparr>ReshareRatio := Finite 1\<rparr>,
        sample_point\<lparr>ReshareRatio := Finite (- 1 / 10000000)\<rparr>,
        sample_point\<lparr>ReshareRatio := Finite (10000001 / 10000000)\<rparr>]"
    by (simp add: boundary_series_def)
  show ?thesis
    using range_checks_inclusive [of ReshareRatio reshare_ratio_failure 0 boundary_series "Finite 0"]
      range_checks_inclusive [of ReshareRatio reshare_ratio_failure 1 boundary_series "Finite 1"]
      range_checks_inclusive [of ReshareRatio reshare_ratio_failure 2 boundary_series "Finite (- 1 / 10000000)"]
      range_checks_inclusive [of ReshareRatio reshare_ratio_failure 3 boundary_series
        "Finite (10000001 / 10000000)"]
      f
    by (simp add: p f64_greater_def)
qed

text \<open>
  C6. For a provenance tag whose account type is outside its enumeration and whose
  dedup hash is \<open>ZZZZZZZZ\<close>, with every other field valid, the message of the returned
  error is exactly \<open>invalid acct_type; dedup_hash must be 8 lowercase hex chars\<close>.
\<close>

theorem acct_type_and_hash_message:
  "AcctType t \<notin> set (AcctType_constants T) \<and> DedupHash t = ''ZZZZZZZZ''
   \<and> AcctAgeBucket t \<in> set (AcctAgeBucket_constants T)
   \<and> AutomationFlag t \<in> set (AutomationFlag_constants T)
   \<and> PostKind t \<in> set (PostKind_constants T)
   \<and> ClientFamily t \<in> set (ClientFamily_constants T)
   \<and> MediaProvenance t \<in> set (MediaProvenance_constants T)
   \<and> (OriginHint t = [] \<or> ReISO3166 T (OriginHint t)) \<longrightarrow>
     message_of (ValidateProvenanceTag T (Some t)) =
       Some ''invalid acct_type; dedup_hash must be 8 lowercase hex chars''"
proof (intro impI)
  assume a: "AcctType t \<notin> set (AcctType_constants T) \<and> DedupHash t = ''ZZZZZZZZ''
   \<and> AcctAgeBucket t \<in> set (AcctAgeBucket_constants T)
   \<and> AutomationFlag t \<in> set (AutomationFlag_constants T)
   \<and> PostKind t \<in> set (PostKind_constants T)
   \<and> ClientFamily t \<in> set (ClientFamily_constants T)
   \<and> MediaProvenance t \<in> set (MediaProvenance_constants T)
   \<and> (OriginHint t = [] \<or> ReISO3166 T (OriginHint t))"
  have z: "\<not> ReHex8 ''ZZZZZZZZ''"
    by (simp add: ReHex8_def hex_lower_def)
  from a z have f: "failures (tag_checks T t) =
      [''invalid acct_type'', ''dedup_hash must be 8 lowercase hex chars'']"
    by (auto simp add: tag_checks_def failures_def)
  show "message_of (ValidateProvenanceTag T (Some t)) =
       Some ''invalid acct_type; dedup_hash must be 8 lowercase hex chars''"
    by (simp add: ValidateProvenanceTag_recorded f NilOrError_def message_of_def)
qed

theorem acct_type_and_hash_message_witness:
  "AcctType bad_tag \<notin> set (AcctType_constants sample_types)
   \<and> DedupHash bad_tag = ''ZZZZZZZZ''
   \<and> message_of (ValidateProvenanceTag sample_types (Some bad_tag)) =
       Some ''invalid acct_type; dedup_hash must be 8 lowercase hex chars''"
proof -
  have h: "AcctType bad_tag \<notin> set (AcctType_constants sample_types)
   \<and> DedupHash bad_tag = ''ZZZZZZZZ''
   \<and> AcctAgeBucket bad_tag \<in> set (AcctAgeBucket_constants sample_types)
   \<and> AutomationFlag bad_tag \<in> set (AutomationFlag_constants sample_types)
   \<and> PostKind bad_tag \<in> set (PostKind_constants sample_types)
   \<and> ClientFamily bad_tag \<in> set (ClientFamily_constants sample_types)
   \<and> MediaProvenance bad_tag \<in> set (MediaProvenance_constants sample_types)
   \<and> (OriginHint bad_tag = [] \<or> ReISO3166 sample_types (OriginHint bad_tag))"
    by (simp add: sample_types_def bad_tag_def sample_tag_def
        AcctAgeBucket_constants_def AcctType_constants_def AutomationFlag_constants_def
        PostKind_constants_def ClientFamily_constants_def MediaProvenance_constants_def
        capital_def capital_or_digit_def)
  from acct_type_and_hash_message [of bad_tag sample_types] h show ?thesis by blast
qed

text \<open>
  C7. \<open>Append\<close> of the nil error leaves the aggregator as it is; \<open>Append\<close> of a non-nil
  error records it at the end of the recorded sequence; so after any sequence of calls
  the recorded errors are the earlier ones followed by the non-nil arguments in the
  order of the calls.
\<close>

theorem Append_preserves_order:
  "Append m None = m
   \<and> Append m (Some e) = MultiError (errs m @ [e])
   \<and> errs (foldl Append m xs) = errs m @ map the (filter (\<lambda>x. x \<noteq> None) xs)"
  by (simp add: Append_None Append_Some errs_foldl_Append)

theorem Append_preserves_order_witness:
  "errs (foldl Append (MultiError [])
       [Some (errorString ''a''), None, Some (errorString ''b'')]) =
     [errorString ''a'', errorString ''b'']"
proof -
  from Append_preserves_order [of "MultiError []" "errorString ''a''"
      "[Some (errorString ''a''), None, Some (errorString ''b'')]"]
  have "errs (foldl Append (MultiError [])
          [Some (errorString ''a''), None, Some (errorString ''b'')]) =
        errs (MultiError []) @
          map the (filter (\<lambda>x. x \<noteq> None)
            [Some (errorString ''a''), None, Some (errorString ''b'')])"
    by blast
  then show ?thesis by simp
qed

text \<open>
  C8. \<open>MustProvenanceTag\<close> and \<open>MustSeries\<close> panic with an error exactly when the
  corresponding validator returns that error, and return normally exactly when the
  validator returns nil; for a record behind a non-nil pointer they panic if and only
  if the validator returns a non-nil error; on a valid record they return normally.
\<close>

theorem Must_panics_iff_validator_fails:
  "(MustProvenanceTag T tp = Inl (PanicValue e)) = (ValidateProvenanceTag T tp = Inr (Some e))
   \<and> (MustProvenanceTag T tp = Inr ()) = (ValidateProvenanceTag T tp = Inr None)
   \<and> isl (MustProvenanceTag T (Some t)) = (\<exists>e. ValidateProvenanceTag T (Some t) = Inr (Some e))
   \<and> (MustSeries sp = Inl (PanicValue e)) = (ValidateSeries sp = Inr (Some e))
   \<and> (MustSeries sp = Inr ()) = (ValidateSeries sp = Inr None)
   \<and> isl (MustSeries (Some s)) = (\<exists>e. ValidateSeries (Some s) = Inr (Some e))
   \<and> (valid_ProvenanceTag T t \<longrightarrow> MustProvenanceTag T (Some t) = Inr ())
   \<and> (valid_Series s \<longrightarrow> MustSeries (Some s) = Inr ())"
proof -
  have a: "(MustProvenanceTag T tp = Inl (PanicValue e)) =
             (ValidateProvenanceTag T tp = Inr (Some e))"
    by (cases tp)
       (auto simp add: MustProvenanceTag_def ValidateProvenanceTag_nil
          ValidateProvenanceTag_recorded split: option.splits)
  have b: "(MustProvenanceTag T tp = Inr ()) = (ValidateProvenanceTag T tp = Inr None)"
    by (auto simp add: MustProvenanceTag_def split: sum.splits option.splits)
  have c: "isl (MustProvenanceTag T (Some t)) =
             (\<exists>e. ValidateProvenanceTag T (Some t) = Inr (Some e))"
    by (auto simp add: MustProvenanceTag_def ValidateProvenanceTag_recorded
          split: sum.splits option.splits)
  have d: "(MustSeries sp = Inl (PanicValue e)) = (ValidateSeries sp = Inr (Some e))"
    by (cases sp)
       (auto simp add: MustSeries_def ValidateSeries_nil ValidateSeries_recorded
          split: option.splits)
  have e: "(MustSeries sp = Inr ()) = (ValidateSeries sp = Inr None)"
    by (auto simp add: MustSeries_def split: sum.splits option.splits)
  have f: "isl (MustSeries (Some s)) = (\<exists>e. ValidateSeries (Some s) = Inr (Some e))"
    by (auto simp add: MustSeries_def ValidateSeries_recorded split: sum.splits option.splits)
  have g: "valid_ProvenanceTag T t \<longrightarrow> MustProvenanceTag T (Some t) = Inr ()"
    by (simp add: MustProvenanceTag_def ValidateProvenanceTag_recorded valid_tag_no_failures
          NilOrError_empty)
  have h: "valid_Series s \<longrightarrow> MustSeries (Some s) = Inr ()"
    by (simp add: MustSeries_def ValidateSeries_recorded valid_series_no_failures
          NilOrError_empty)
  from a b c d e f g h show ?thesis by blast
qed

theorem Must_panics_iff_validator_fails_witness:
  "valid_ProvenanceTag sample_types sample_tag
   \<and> MustProvenanceTag sample_types (Some sample_tag) = Inr ()
   \<and> valid_Series sample_series
   \<and> MustSeries (Some sample_series) = Inr ()"
proof -
  from Must_panics_iff_validator_fails
    [where T = sample_types and t = sample_tag and s = sample_series]
  have "(valid_ProvenanceTag sample_types sample_tag \<longrightarrow>
           MustProvenanceTag sample_types (Some sample_tag) = Inr ())
        \<and> (valid_Series sample_series \<longrightarrow> MustSeries (Some sample_series) = Inr ())"
    by blast
  with sample_tag_valid sample_series_valid show ?thesis by blast
qed



text \<open>
  C10. For a nil pointer neither validator returns: the call faults on the first field
  read. For every non-nil pointer both validators return.
\<close>

theorem nil_pointer_faults:
  "ValidateProvenanceTag T None = Inl NilDereference
   \<and> ValidateSeries None = Inl NilDereference
   \<and> (\<exists>r. ValidateProvenanceTag T (Some t) = Inr r)
   \<and> (\<exists>r. ValidateSeries (Some s) = Inr r)"
  by (simp add: ValidateProvenanceTag_recorded ValidateSeries_recorded
        ValidateProvenanceTag_nil ValidateSeries_nil)

theorem nil_pointer_faults_witness:
  "ValidateProvenanceTag sample_types None = Inl NilDereference
   \<and> ValidateSeries None = Inl NilDereference
   \<and> ValidateProvenanceTag sample_types (Some sample_tag) = Inr None
   \<and> ValidateSeries (Some sample_series) = Inr None"
  using nil_pointer_faults [of sample_types sample_tag sample_series]
  by (simp add: ValidateProvenanceTag_recorded ValidateSeries_recorded NilOrError_empty
        valid_tag_no_failures valid_series_no_failures sample_tag_valid sample_series_valid)

end
